theory Spec2Isabelle
  imports Complex_Main
begin

section \<open>Python values\<close>

text \<open>
  A Python \<open>str\<close> is a sequence of Unicode code points.  Literals of the source are
  written \<open>u ''...''\<close>.
\<close>

type_synonym pystr = "nat list"

definition u :: "string \<Rightarrow> pystr" where
  "u s = map of_char s"

text \<open>
  The code points that \<open>str.strip()\<close> removes when called without an argument
  (the characters for which \<open>str.isspace\<close> holds).
\<close>

definition isspace :: "nat \<Rightarrow> bool" where
  "isspace c \<longleftrightarrow>
     (9 \<le> c \<and> c \<le> 13) \<or> (28 \<le> c \<and> c \<le> 32) \<or> c = 133 \<or> c = 160 \<or> c = 5760 \<or>
     (8192 \<le> c \<and> c \<le> 8202) \<or> c = 8232 \<or> c = 8233 \<or> c = 8239 \<or> c = 8287 \<or> c = 12288"

definition strip :: "pystr \<Rightarrow> pystr" where
  "strip s = rev (dropWhile isspace (rev (dropWhile isspace s)))"

text \<open>
  The values \<open>json.loads\<close> and \<open>response.json()\<close> produce, which are also the
  values \<open>call_ollama_api\<close> returns: \<open>JNull\<close> is \<open>None\<close>, \<open>JBool True\<close> is
  \<open>True\<close>, \<open>JStr\<close> a \<open>str\<close>, \<open>JList\<close> a \<open>list\<close>, \<open>JDict\<close> a \<open>dict\<close>
  (an association list, looked up with \<open>map_of\<close>).
\<close>

datatype pyfloat = Finite rat | PosInf | NegInf | NaN

datatype json =
    JNull
  | JBool bool
  | JInt int
  | JFloat pyfloat
  | JStr pystr
  | JList "json list"
  | JDict "(pystr \<times> json) list"

text \<open>
  The exceptions the model distinguishes.  \<open>JSONDecodeError\<close> and
  \<open>UnicodeDecodeError\<close> are subclasses of \<open>ValueError\<close>; \<open>RequestException\<close>
  stands for every exception of the \<open>requests\<close> library, with its text;
  \<open>MarkupError\<close> is what \<open>rich\<close> raises on text that is not valid console markup;
  \<open>Other_exception\<close> is any exception that belongs to none of these classes.
\<close>

datatype py_exn =
    TypeError
  | AttributeError
  | KeyError
  | ValueError
  | JSONDecodeError
  | UnicodeDecodeError
  | RecursionError
  | MarkupError
  | RequestException pystr
  | Other_exception pystr

text \<open>\<open>isinstance(x, ValueError)\<close>.\<close>

fun is_ValueError :: "py_exn \<Rightarrow> bool" where
  "is_ValueError ValueError = True"
| "is_ValueError JSONDecodeError = True"
| "is_ValueError UnicodeDecodeError = True"
| "is_ValueError TypeError = False"
| "is_ValueError AttributeError = False"
| "is_ValueError KeyError = False"
| "is_ValueError RecursionError = False"
| "is_ValueError MarkupError = False"
| "is_ValueError (RequestException e) = False"
| "is_ValueError (Other_exception e) = False"

text \<open>The truth value Python gives a value in \<open>if v:\<close>.\<close>

fun truthy :: "json \<Rightarrow> bool" where
  "truthy JNull = False"
| "truthy (JBool b) = b"
| "truthy (JInt i) = (i \<noteq> 0)"
| "truthy (JFloat f) = (f \<noteq> Finite 0)"
| "truthy (JStr s) = (s \<noteq> [])"
| "truthy (JList xs) = (xs \<noteq> [])"
| "truthy (JDict kvs) = (kvs \<noteq> [])"

text \<open>\<open>needle in hay\<close> for two strings: \<open>needle\<close> occurs as a contiguous run.\<close>

fun str_contains :: "pystr \<Rightarrow> pystr \<Rightarrow> bool" where
  "str_contains needle [] = (needle = [])"
| "str_contains needle (c # cs) =
     (take (length needle) (c # cs) = needle \<or> str_contains needle cs)"

text \<open>\<open>k in v\<close> for a string \<open>k\<close>: key of a dict, substring of a string, element
  of a list; the other values are not iterable.\<close>

fun py_in :: "pystr \<Rightarrow> json \<Rightarrow> py_exn + bool" where
  "py_in k (JDict kvs) = Inr (map_of kvs k \<noteq> None)"
| "py_in k (JStr s) = Inr (str_contains k s)"
| "py_in k (JList xs) = Inr (JStr k \<in> set xs)"
| "py_in k JNull = Inl TypeError"
| "py_in k (JBool b) = Inl TypeError"
| "py_in k (JInt i) = Inl TypeError"
| "py_in k (JFloat f) = Inl TypeError"

text \<open>\<open>v[k]\<close> for a string \<open>k\<close>: only a dict is indexed by a string.\<close>

fun py_getitem :: "json \<Rightarrow> pystr \<Rightarrow> py_exn + json" where
  "py_getitem (JDict kvs) k = (case map_of kvs k of None \<Rightarrow> Inl KeyError | Some v \<Rightarrow> Inr v)"
| "py_getitem JNull k = Inl TypeError"
| "py_getitem (JBool b) k = Inl TypeError"
| "py_getitem (JInt i) k = Inl TypeError"
| "py_getitem (JFloat f) k = Inl TypeError"
| "py_getitem (JStr s) k = Inl TypeError"
| "py_getitem (JList xs) k = Inl TypeError"

text \<open>\<open>s += v\<close> for a string \<open>s\<close>: only a string can be appended.\<close>

fun py_str_add :: "pystr \<Rightarrow> json \<Rightarrow> py_exn + pystr" where
  "py_str_add s (JStr t) = Inr (s @ t)"
| "py_str_add s JNull = Inl TypeError"
| "py_str_add s (JBool b) = Inl TypeError"
| "py_str_add s (JInt i) = Inl TypeError"
| "py_str_add s (JFloat f) = Inl TypeError"
| "py_str_add s (JList xs) = Inl TypeError"
| "py_str_add s (JDict kvs) = Inl TypeError"

text \<open>\<open>v.get(k, d)\<close>: only a dict has the method.\<close>

fun py_get :: "json \<Rightarrow> pystr \<Rightarrow> json \<Rightarrow> py_exn + json" where
  "py_get (JDict kvs) k d = Inr (case map_of kvs k of None \<Rightarrow> d | Some v \<Rightarrow> v)"
| "py_get JNull k d = Inl AttributeError"
| "py_get (JBool b) k d = Inl AttributeError"
| "py_get (JInt i) k d = Inl AttributeError"
| "py_get (JFloat f) k d = Inl AttributeError"
| "py_get (JStr s) k d = Inl AttributeError"
| "py_get (JList xs) k d = Inl AttributeError"

section \<open>The libraries\<close>

text \<open>
  A call of \<open>requests.get/post/delete/head\<close> is a \<open>request\<close>; the fields are the
  arguments the source passes, with the library's defaults (\<open>verify=True\<close>,
  \<open>stream=False\<close>, no headers, no body) where it passes none.  The library is a
  parameter \<open>http\<close> of the model: it answers a request with a response or raises an
  exception.

  A response has its status code, its body \<open>resp_text\<close> (the attribute \<open>text\<close>),
  what its method \<open>json()\<close> does (it returns a value or raises), and for a streamed
  response the lines \<open>iter_lines\<close> yields, followed by the exception (if any) that
  the iterator raises after the last of them.  With \<open>decode_unicode=True\<close> the lines
  are strings when the response declares a character set and byte strings when it does
  not; a byte string is the list of its bytes.

  \<open>json_loads\<close>, the function \<open>json.loads\<close>, is a parameter: it returns a value or
  raises, \<open>JSONDecodeError\<close> on text that is not JSON, \<open>UnicodeDecodeError\<close> on
  bytes that are not text, \<open>RecursionError\<close> on text nested too deeply.

  \<open>rich\<close>, the console library, is a parameter as well: \<open>rich c\<close> is \<open>None\<close> when
  \<open>c\<close> is printed and the exception otherwise.  The source passes what it prints to
  \<open>rich\<close> as console markup, so text that arrives from outside can raise
  \<open>MarkupError\<close>; for the dump of the event log \<open>rich c\<close> also covers what
  \<open>json.dumps\<close> does.  The model asks \<open>rich\<close> only where the source prints text
  from outside.  The messages the source fixes, also those with a status code, hold no
  markup and are printed; so is what the built-in \<open>print\<close> prints.
\<close>

datatype http_method = GET | POST | DELETE | HEAD

record request =
  req_method :: http_method
  req_url :: pystr
  req_headers :: "(pystr \<times> pystr) list"
  req_json :: "json option"
  req_verify :: bool
  req_stream :: bool

record response =
  status_code :: int
  resp_text :: pystr
  resp_json :: "py_exn + json"
  iter_lines :: "pystr list"
  iter_error :: "py_exn option"

section \<open>Console output\<close>

text \<open>One constructor of \<open>message\<close> for each text the source prints.\<close>

datatype message =
    Request_failed_status int
  | Network_request_failed pystr
  | Model_and_prompt_empty
  | Api_request_failed_status int
  | Unparseable_event pystr
  | Event_dump "json list"
  | Generated_text pystr
  | Generated_text_empty
  | Request_error pystr
  | Model_name_empty
  | Cancelled
  | Delete_ok
  | Delete_failed
  | Pull_ok
  | Pull_failed
  | Push_ok
  | Push_failed
  | Digest_empty
  | Blob_exists
  | Blob_missing
  | Check_failed_status int
  | Source_and_target_empty
  | Copy_ok
  | Copy_failed

datatype console = print_info message | print_error message | rprint message | print message

type_synonym transport = "request \<Rightarrow> py_exn + response"
type_synonym decoder = "pystr \<Rightarrow> py_exn + json"
type_synonym printer = "console \<Rightarrow> py_exn option"

text \<open>What a function of the source does: the requests it sends and what it prints,
  in order.  \<open>call_ollama_api\<close> returns a value or raises (\<open>Inl\<close>); the menu
  actions return nothing, and \<open>raised\<close> is the exception that leaves them, if any.\<close>

record effects =
  sent :: "request list"
  printed :: "console list"

record api_result = effects +
  ret :: "py_exn + json"

record action_result = effects +
  raised :: "py_exn option"

section \<open>The request dispatcher\<close>

text \<open>
  The clause \<open>except requests.exceptions.RequestException as e\<close> of the dispatcher:
  it prints the exception and returns \<open>None\<close>; any other exception leaves the
  function, and so does what the printing raises.
\<close>

definition request_failed :: "printer \<Rightarrow> request \<Rightarrow> py_exn \<Rightarrow> api_result" where
  "request_failed rich req x =
     (case x of
        RequestException e \<Rightarrow>
          (case rich (print_error (Network_request_failed e)) of
             None \<Rightarrow>
               \<lparr>sent = [req], printed = [print_error (Network_request_failed e)],
                ret = Inr JNull\<rparr>
           | Some y \<Rightarrow> \<lparr>sent = [req], printed = [], ret = Inl y\<rparr>)
      | _ \<Rightarrow> \<lparr>sent = [req], printed = [], ret = Inl x\<rparr>)"

definition call_ollama_api ::
  "printer \<Rightarrow> transport \<Rightarrow> pystr \<Rightarrow> pystr \<Rightarrow> pystr \<Rightarrow> json option \<Rightarrow> api_result" where
  "call_ollama_api rich http url endpoint method json_data =
     (let api_endpoint = url @ u ''/api/'' @ endpoint;
          req =
            (if method = u ''POST'' then
               \<lparr>req_method = POST, req_url = api_endpoint, req_headers = [],
                req_json = json_data, req_verify = False, req_stream = False\<rparr>
             else if method = u ''DELETE'' then
               \<lparr>req_method = DELETE, req_url = api_endpoint, req_headers = [],
                req_json = json_data, req_verify = False, req_stream = False\<rparr>
             else
               \<lparr>req_method = GET, req_url = api_endpoint, req_headers = [],
                req_json = None, req_verify = False, req_stream = False\<rparr>)
      in case http req of
           Inr response \<Rightarrow>
             if status_code response = 200 \<or> status_code response = 204 then
               if status_code response = 204 then
                 \<lparr>sent = [req], printed = [], ret = Inr (JBool True)\<rparr>
               else
                 (case resp_json response of
                    Inr v \<Rightarrow> \<lparr>sent = [req], printed = [], ret = Inr v\<rparr>
                  | Inl x \<Rightarrow>
                      if is_ValueError x then
                        \<lparr>sent = [req], printed = [], ret = Inr (JStr (resp_text response))\<rparr>
                      else request_failed rich req x)
             else
               \<lparr>sent = [req],
                printed = [print_error (Request_failed_status (status_code response))],
                ret = Inr JNull\<rparr>
         | Inl x \<Rightarrow> request_failed rich req x)"

section \<open>Text generation\<close>

record gen_state =
  generated_text :: pystr
  complete_data :: "json list"
  console :: "console list"

text \<open>
  The body of the \<open>try\<close> after a line has been decoded: the event is appended to the
  log, its \<open>response\<close> to the text, and the result says whether the loop breaks.
  A \<open>TypeError\<close> or \<open>AttributeError\<close> is not caught by the
  \<open>except json.JSONDecodeError\<close> of the loop.
\<close>

definition handle_event :: "json \<Rightarrow> gen_state \<Rightarrow> py_exn \<times> gen_state + gen_state \<times> bool" where
  "handle_event event st =
     (let st1 = st\<lparr>complete_data := complete_data st @ [event]\<rparr> in
      case py_in (u ''response'') event of
        Inl x \<Rightarrow> Inl (x, st1)
      | Inr has_response \<Rightarrow>
          (case (if has_response then
                   (case py_getitem event (u ''response'') of
                      Inl x \<Rightarrow> Inl x
                    | Inr v \<Rightarrow> py_str_add (generated_text st1) v)
                 else Inr (generated_text st1)) of
             Inl x \<Rightarrow> Inl (x, st1)
           | Inr t \<Rightarrow>
               (let st2 = st1\<lparr>generated_text := t\<rparr> in
                case py_get event (u ''done'') (JBool False) of
                  Inl x \<Rightarrow> Inl (x, st2)
                | Inr d \<Rightarrow> Inr (st2, truthy d))))"

text \<open>
  The \<open>for line in response.iter_lines(...)\<close> loop.  It ends by \<open>break\<close> (with the
  lines it has not read), at the end of the lines, or with an exception nothing in
  the loop catches: the loop catches \<open>json.JSONDecodeError\<close> and nothing else.
\<close>

datatype loop_result =
    Broke gen_state "pystr list"
  | Exhausted gen_state
  | Uncaught py_exn gen_state

fun stream_loop :: "decoder \<Rightarrow> pystr list \<Rightarrow> gen_state \<Rightarrow> loop_result" where
  "stream_loop json_loads [] st = Exhausted st"
| "stream_loop json_loads (line # lines) st =
     (if line = [] then stream_loop json_loads lines st
      else
        case json_loads line of
          Inl x \<Rightarrow>
            if x = JSONDecodeError then
              stream_loop json_loads lines
                (st\<lparr>console := console st @ [print (Unparseable_event line)]\<rparr>)
            else Uncaught x st
        | Inr event \<Rightarrow>
            (case handle_event event st of
               Inl (x, st') \<Rightarrow> Uncaught x st'
             | Inr (st', brk) \<Rightarrow>
                 if brk then Broke st' lines else stream_loop json_loads lines st'))"

definition init_state :: gen_state where
  "init_state = \<lparr>generated_text = [], complete_data = [], console = []\<rparr>"

text \<open>
  The clause \<open>except requests.exceptions.RequestException as e\<close> of
  \<open>generate_text\<close>, entered with \<open>out\<close> printed so far: it prints the exception;
  any other exception leaves the function, and so does what the printing raises.
\<close>

definition request_error :: "printer \<Rightarrow> request \<Rightarrow> console list \<Rightarrow> py_exn \<Rightarrow> action_result" where
  "request_error rich req out x =
     (case x of
        RequestException e \<Rightarrow>
          (case rich (print_error (Request_error e)) of
             None \<Rightarrow>
               \<lparr>sent = [req], printed = out @ [print_error (Request_error e)], raised = None\<rparr>
           | Some y \<Rightarrow> \<lparr>sent = [req], printed = out, raised = Some y\<rparr>)
      | _ \<Rightarrow> \<lparr>sent = [req], printed = out, raised = Some x\<rparr>)"

text \<open>What follows the loop, still inside the \<open>try\<close>: the dump of the event log,
  then the text or the complaint that it is empty.\<close>

definition after_loop :: "printer \<Rightarrow> request \<Rightarrow> gen_state \<Rightarrow> action_result" where
  "after_loop rich req st =
     (case rich (print_info (Event_dump (complete_data st))) of
        Some x \<Rightarrow> request_error rich req (console st) x
      | None \<Rightarrow>
          (let out = console st @ [print_info (Event_dump (complete_data st))] in
           if strip (generated_text st) \<noteq> [] then
             (case rich (rprint (Generated_text (strip (generated_text st)))) of
                Some x \<Rightarrow> request_error rich req out x
              | None \<Rightarrow>
                  \<lparr>sent = [req],
                   printed = out @ [rprint (Generated_text (strip (generated_text st)))],
                   raised = None\<rparr>)
           else
             \<lparr>sent = [req], printed = out @ [print_error Generated_text_empty],
              raised = None\<rparr>))"

text \<open>\<open>ask_model\<close> and \<open>ask_prompt\<close> are what the two \<open>Prompt.ask\<close> calls return.\<close>

definition generate_text ::
  "printer \<Rightarrow> transport \<Rightarrow> decoder \<Rightarrow> pystr \<Rightarrow> pystr \<Rightarrow> pystr \<Rightarrow> action_result" where
  "generate_text rich http json_loads url ask_model ask_prompt =
     (let model_name = strip ask_model;
          prompt = strip ask_prompt
      in if model_name = [] \<or> prompt = [] then
           \<lparr>sent = [], printed = [print_error Model_and_prompt_empty], raised = None\<rparr>
         else
           (let api_url = url @ u ''/api/generate'';
                headers = [(u ''Content-Type'', u ''application/json'')];
                json_data = JDict [(u ''model'', JStr model_name), (u ''prompt'', JStr prompt)];
                req = \<lparr>req_method = POST, req_url = api_url, req_headers = headers,
                       req_json = Some json_data, req_verify = True, req_stream = True\<rparr>
            in case http req of
                 Inl x \<Rightarrow> request_error rich req [] x
               | Inr response \<Rightarrow>
                   if status_code response \<noteq> 200 then
                     \<lparr>sent = [req],
                      printed = [print_error (Api_request_failed_status (status_code response))],
                      raised = None\<rparr>
                   else
                     (case stream_loop json_loads (iter_lines response) init_state of
                        Uncaught x st \<Rightarrow> request_error rich req (console st) x
                      | Broke st unread \<Rightarrow> after_loop rich req st
                      | Exhausted st \<Rightarrow>
                          (case iter_error response of
                             Some x \<Rightarrow> request_error rich req (console st) x
                           | None \<Rightarrow> after_loop rich req st))))"

section \<open>Model management\<close>

text \<open>\<open>ask\<close> is what \<open>Prompt.ask\<close> returns, \<open>confirm\<close> and \<open>stream\<close> what
  \<open>Confirm.ask\<close> returns.  An exception that leaves the dispatcher leaves the action.\<close>

definition delete_model :: "printer \<Rightarrow> transport \<Rightarrow> pystr \<Rightarrow> pystr \<Rightarrow> bool \<Rightarrow> action_result" where
  "delete_model rich http url ask confirm =
     (let model_name = strip ask in
      if model_name = [] then
        \<lparr>sent = [], printed = [print_error Model_name_empty], raised = None\<rparr>
      else if \<not> confirm then
        \<lparr>sent = [], printed = [print_info Cancelled], raised = None\<rparr>
      else
        (let r = call_ollama_api rich http url (u ''delete'') (u ''DELETE'')
                   (Some (JDict [(u ''model'', JStr model_name)]))
         in case ret r of
              Inl x \<Rightarrow> \<lparr>sent = sent r, printed = printed r, raised = Some x\<rparr>
            | Inr result \<Rightarrow>
                \<lparr>sent = sent r,
                 printed = printed r @
                   [if result = JStr [] then print_info Delete_ok else print_error Delete_failed],
                 raised = None\<rparr>))"

definition pull_model :: "printer \<Rightarrow> transport \<Rightarrow> pystr \<Rightarrow> pystr \<Rightarrow> bool \<Rightarrow> action_result" where
  "pull_model rich http url ask stream =
     (let model_name = strip ask in
      if model_name = [] then
        \<lparr>sent = [], printed = [print_error Model_name_empty], raised = None\<rparr>
      else
        (let r = call_ollama_api rich http url (u ''pull'') (u ''POST'')
                   (Some (JDict [(u ''model'', JStr model_name), (u ''stream'', JBool stream)]))
         in case ret r of
              Inl x \<Rightarrow> \<lparr>sent = sent r, printed = printed r, raised = Some x\<rparr>
            | Inr result \<Rightarrow>
                \<lparr>sent = sent r,
                 printed = printed r @
                   [if result = JBool True then print_info Pull_ok else print_error Pull_failed],
                 raised = None\<rparr>))"

definition push_model :: "printer \<Rightarrow> transport \<Rightarrow> pystr \<Rightarrow> pystr \<Rightarrow> bool \<Rightarrow> action_result" where
  "push_model rich http url ask stream =
     (let model_name = strip ask in
      if model_name = [] then
        \<lparr>sent = [], printed = [print_error Model_name_empty], raised = None\<rparr>
      else
        (let r = call_ollama_api rich http url (u ''push'') (u ''POST'')
                   (Some (JDict [(u ''model'', JStr model_name), (u ''stream'', JBool stream)]))
         in case ret r of
              Inl x \<Rightarrow> \<lparr>sent = sent r, printed = printed r, raised = Some x\<rparr>
            | Inr result \<Rightarrow>
                \<lparr>sent = sent r,
                 printed = printed r @
                   [if result = JBool True then print_info Push_ok else print_error Push_failed],
                 raised = None\<rparr>))"

text \<open>\<open>requests.head\<close> is called outside any \<open>try\<close>: its exception is not caught.\<close>

definition check_blob :: "transport \<Rightarrow> pystr \<Rightarrow> pystr \<Rightarrow> action_result" where
  "check_blob http url ask =
     (let digest = strip ask in
      if digest = [] then
        \<lparr>sent = [], printed = [print_error Digest_empty], raised = None\<rparr>
      else
        (let req = \<lparr>req_method = HEAD, req_url = url @ u ''/api/blobs/'' @ digest,
                    req_headers = [], req_json = None, req_verify = False, req_stream = False\<rparr>
         in case http req of
              Inl x \<Rightarrow> \<lparr>sent = [req], printed = [], raised = Some x\<rparr>
            | Inr response \<Rightarrow>
                \<lparr>sent = [req],
                 printed =
                   [if status_code response = 200 then print_info Blob_exists
                    else if status_code response = 404 then print_error Blob_missing
                    else print_error (Check_failed_status (status_code response))],
                 raised = None\<rparr>))"

definition copy_model :: "printer \<Rightarrow> transport \<Rightarrow> pystr \<Rightarrow> pystr \<Rightarrow> pystr \<Rightarrow> action_result" where
  "copy_model rich http url ask_source ask_target =
     (let source_model = strip ask_source;
          target_model = strip ask_target
      in if source_model = [] \<or> target_model = [] then
           \<lparr>sent = [], printed = [print_error Source_and_target_empty], raised = None\<rparr>
         else
           (let r = call_ollama_api rich http url (u ''copy'') (u ''POST'')
                      (Some (JDict [(u ''from'', JStr source_model), (u ''to'', JStr target_model)]))
            in case ret r of
                 Inl x \<Rightarrow> \<lparr>sent = sent r, printed = printed r, raised = Some x\<rparr>
               | Inr result \<Rightarrow>
                   \<lparr>sent = sent r,
                    printed = printed r @
                      [if result = JBool True then print_info Copy_ok else print_error Copy_failed],
                    raised = None\<rparr>))"

section \<open>The requests the source builds\<close>

text \<open>The request \<open>call_ollama_api\<close> sends, by the three branches on \<open>method\<close>,
  and what it does with the answer of the library.\<close>

definition issued :: "pystr \<Rightarrow> pystr \<Rightarrow> pystr \<Rightarrow> json option \<Rightarrow> request" where
  "issued url endpoint method json_data =
     (if method = u ''POST'' then
        \<lparr>req_method = POST, req_url = url @ u ''/api/'' @ endpoint, req_headers = [],
         req_json = json_data, req_verify = False, req_stream = False\<rparr>
      else if method = u ''DELETE'' then
        \<lparr>req_method = DELETE, req_url = url @ u ''/api/'' @ endpoint, req_headers = [],
         req_json = json_data, req_verify = False, req_stream = False\<rparr>
      else
        \<lparr>req_method = GET, req_url = url @ u ''/api/'' @ endpoint, req_headers = [],
         req_json = None, req_verify = False, req_stream = False\<rparr>)"

definition answered :: "printer \<Rightarrow> request \<Rightarrow> py_exn + response \<Rightarrow> api_result" where
  "answered rich req answer =
     (case answer of
        Inr response \<Rightarrow>
          if status_code response = 200 \<or> status_code response = 204 then
            if status_code response = 204 then
              \<lparr>sent = [req], printed = [], ret = Inr (JBool True)\<rparr>
            else
              (case resp_json response of
                 Inr v \<Rightarrow> \<lparr>sent = [req], printed = [], ret = Inr v\<rparr>
               | Inl x \<Rightarrow>
                   if is_ValueError x then
                     \<lparr>sent = [req], printed = [], ret = Inr (JStr (resp_text response))\<rparr>
                   else request_failed rich req x)
          else
            \<lparr>sent = [req],
             printed = [print_error (Request_failed_status (status_code response))],
             ret = Inr JNull\<rparr>
      | Inl x \<Rightarrow> request_failed rich req x)"

text \<open>The requests of the menu actions.\<close>

definition delete_request :: "pystr \<Rightarrow> pystr \<Rightarrow> request" where
  "delete_request url model_name =
     \<lparr>req_method = DELETE, req_url = url @ u ''/api/delete'', req_headers = [],
      req_json = Some (JDict [(u ''model'', JStr model_name)]),
      req_verify = False, req_stream = False\<rparr>"

definition pull_request :: "pystr \<Rightarrow> pystr \<Rightarrow> bool \<Rightarrow> request" where
  "pull_request url model_name stream =
     \<lparr>req_method = POST, req_url = url @ u ''/api/pull'', req_headers = [],
      req_json = Some (JDict [(u ''model'', JStr model_name), (u ''stream'', JBool stream)]),
      req_verify = False, req_stream = False\<rparr>"

definition push_request :: "pystr \<Rightarrow> pystr \<Rightarrow> bool \<Rightarrow> request" where
  "push_request url model_name stream =
     \<lparr>req_method = POST, req_url = url @ u ''/api/push'', req_headers = [],
      req_json = Some (JDict [(u ''model'', JStr model_name), (u ''stream'', JBool stream)]),
      req_verify = False, req_stream = False\<rparr>"

definition generate_request :: "pystr \<Rightarrow> pystr \<Rightarrow> pystr \<Rightarrow> request" where
  "generate_request url model_name prompt =
     \<lparr>req_method = POST, req_url = url @ u ''/api/generate'',
      req_headers = [(u ''Content-Type'', u ''application/json'')],
      req_json = Some (JDict [(u ''model'', JStr model_name), (u ''prompt'', JStr prompt)]),
      req_verify = True, req_stream = True\<rparr>"

definition copy_request :: "pystr \<Rightarrow> pystr \<Rightarrow> pystr \<Rightarrow> request" where
  "copy_request url source_model target_model =
     \<lparr>req_method = POST, req_url = url @ u ''/api/copy'', req_headers = [],
      req_json = Some (JDict [(u ''from'', JStr source_model), (u ''to'', JStr target_model)]),
      req_verify = False, req_stream = False\<rparr>"

section \<open>The generation loop in the specification's terms\<close>

text \<open>
  \<open>fragment\<close> is the \<open>response\<close> field of an event (empty when the event has
  none) and \<open>done_value\<close> its \<open>done\<close> field (\<open>False\<close> when it has none).  An
  event is \<open>well_shaped\<close> when it is a dict whose \<open>response\<close>, if present, is a
  string: the events the loop body handles without an exception.
\<close>

definition fragment :: "json \<Rightarrow> pystr" where
  "fragment e =
     (case e of
        JDict kvs \<Rightarrow> (case map_of kvs (u ''response'') of Some (JStr s) \<Rightarrow> s | _ \<Rightarrow> [])
      | _ \<Rightarrow> [])"

definition well_shaped :: "json \<Rightarrow> bool" where
  "well_shaped e =
     (case e of
        JDict kvs \<Rightarrow>
          (case map_of kvs (u ''response'') of None \<Rightarrow> True | Some (JStr s) \<Rightarrow> True | _ \<Rightarrow> False)
      | _ \<Rightarrow> False)"

definition done_value :: "json \<Rightarrow> json" where
  "done_value e =
     (case e of
        JDict kvs \<Rightarrow> (case map_of kvs (u ''done'') of None \<Rightarrow> JBool False | Some v \<Rightarrow> v)
      | _ \<Rightarrow> JBool False)"

text \<open>
  The event a line carries, if any, and the events of some lines, in order.  A line is
  \<open>terminal\<close> when it carries an event whose \<open>done\<close> field is true for Python.
  \<open>read_lines\<close> are the lines up to and including the first terminal one (all of
  them when there is none) and \<open>unread_lines\<close> the lines after it.  Both are defined
  on the lines alone, not by the loop.
\<close>

definition decodes :: "decoder \<Rightarrow> pystr \<Rightarrow> json option" where
  "decodes json_loads line =
     (if line = [] then None
      else case json_loads line of Inr e \<Rightarrow> Some e | Inl x \<Rightarrow> None)"

definition decoded :: "decoder \<Rightarrow> pystr list \<Rightarrow> json list" where
  "decoded json_loads lines = List.map_filter (decodes json_loads) lines"

definition terminal :: "decoder \<Rightarrow> pystr \<Rightarrow> bool" where
  "terminal json_loads line =
     (case decodes json_loads line of Some e \<Rightarrow> truthy (done_value e) | None \<Rightarrow> False)"

definition read_lines :: "decoder \<Rightarrow> pystr list \<Rightarrow> pystr list" where
  "read_lines json_loads lines =
     takeWhile (\<lambda>line. \<not> terminal json_loads line) lines @
     take 1 (dropWhile (\<lambda>line. \<not> terminal json_loads line) lines)"

definition unread_lines :: "decoder \<Rightarrow> pystr list \<Rightarrow> pystr list" where
  "unread_lines json_loads lines =
     drop 1 (dropWhile (\<lambda>line. \<not> terminal json_loads line) lines)"

text \<open>
  What the loop prints on some lines: a warning for each non-empty line that is not
  JSON.  A line is \<open>readable\<close> when it is empty, is not JSON, or carries a
  well-shaped event.  \<open>state_after\<close> is the state the specification asks for once
  some lines have been read: the text followed by the fragments of their events, the
  log followed by their events, the console followed by their warnings.
\<close>

definition warnings :: "decoder \<Rightarrow> pystr list \<Rightarrow> console list" where
  "warnings json_loads lines =
     map (\<lambda>line. print (Unparseable_event line))
       (filter (\<lambda>line. line \<noteq> [] \<and> json_loads line = Inl JSONDecodeError) lines)"

definition readable :: "decoder \<Rightarrow> pystr \<Rightarrow> bool" where
  "readable json_loads line =
     (line = [] \<or> json_loads line = Inl JSONDecodeError \<or>
      (case json_loads line of Inr e \<Rightarrow> well_shaped e | Inl x \<Rightarrow> False))"

definition state_after :: "decoder \<Rightarrow> pystr list \<Rightarrow> gen_state \<Rightarrow> gen_state" where
  "state_after json_loads lines st =
     \<lparr>generated_text = generated_text st @ concat (map fragment (decoded json_loads lines)),
      complete_data = complete_data st @ decoded json_loads lines,
      console = console st @ warnings json_loads lines\<rparr>"


section \<open>Concrete libraries for the examples\<close>

text \<open>A console that prints everything; a network on which every request fails; servers
  that answer every request with a given status and an empty body, with status 200 and
  a body that is a given JSON value, and with status 200 and given lines.\<close>

definition prints_all :: printer where
  "prints_all c = None"

definition refuse :: transport where
  "refuse req = Inl (RequestException (u ''connection refused''))"

definition status_response :: "int \<Rightarrow> response" where
  "status_response code =
     \<lparr>status_code = code, resp_text = [], resp_json = Inl JSONDecodeError,
      iter_lines = [], iter_error = None\<rparr>"

definition json_response :: "pystr \<Rightarrow> json \<Rightarrow> response" where
  "json_response body v =
     \<lparr>status_code = 200, resp_text = body, resp_json = Inr v,
      iter_lines = [], iter_error = None\<rparr>"

definition lines_response :: "pystr list \<Rightarrow> response" where
  "lines_response lines =
     \<lparr>status_code = 200, resp_text = [], resp_json = Inl JSONDecodeError,
      iter_lines = lines, iter_error = None\<rparr>"

definition answer_status :: "int \<Rightarrow> transport" where
  "answer_status code req = Inr (status_response code)"

definition answer_json :: "pystr \<Rightarrow> json \<Rightarrow> transport" where
  "answer_json body v req = Inr (json_response body v)"

definition answer_lines :: "pystr list \<Rightarrow> transport" where
  "answer_lines lines req = Inr (lines_response lines)"

text \<open>
  A decoder that knows the lines of the examples: the three lines of the Hello stream,
  a line whose event holds the text \<open>[/INST]\<close>, and the byte \<open>255\<close>, which is
  not text; everything else is not JSON.  A console that refuses the dump of that event,
  as \<open>rich\<close> does on a closing tag that closes nothing.
\<close>

definition note_event :: json where
  "note_event = JDict [(u ''note'', JStr (u ''[/INST]'')), (u ''done'', JBool True)]"

definition example_loads :: decoder where
  "example_loads line =
     (if line = u ''{\"response\":\"Hel\"}'' then Inr (JDict [(u ''response'', JStr (u ''Hel''))])
      else if line = u ''{\"response\":\"lo\"}'' then Inr (JDict [(u ''response'', JStr (u ''lo''))])
      else if line = u ''{\"done\":true}'' then Inr (JDict [(u ''done'', JBool True)])
      else if line = u ''{\"note\":\"[/INST]\",\"done\":true}'' then Inr note_event
      else if line = [255] then Inl UnicodeDecodeError
      else Inl JSONDecodeError)"

definition markup_rich :: printer where
  "markup_rich c = (if c = print_info (Event_dump [note_event]) then Some MarkupError else None)"

definition hello_stream :: "pystr list" where
  "hello_stream = [u ''{\"response\":\"Hel\"}'', u ''{\"response\":\"lo\"}'', u ''{\"done\":true}'']"

definition hello_events :: "json list" where
  "hello_events =
     [JDict [(u ''response'', JStr (u ''Hel''))], JDict [(u ''response'', JStr (u ''lo''))],
      JDict [(u ''done'', JBool True)]]"

definition bytes_stream :: "pystr list" where
  "bytes_stream =
     [u ''{\"response\":\"Hel\"}'', [255], u ''{\"response\":\"lo\"}'', u ''{\"done\":true}'']"

definition note_stream :: "pystr list" where
  "note_stream = [u ''{\"note\":\"[/INST]\",\"done\":true}'']"




section \<open>Facts about strings\<close>

lemma u_eq_iff: "u s = u t \<longleftrightarrow> s = t"
  unfolding u_def by (simp add: inj_map_eq_map inj_on_def)

lemma u_eq_Nil_iff: "u s = [] \<longleftrightarrow> s = []"
  by (simp add: u_def)

lemma strip_m: "strip (u ''m'') = u ''m''"
  by (simp add: strip_def isspace_def u_def)

lemma strip_p: "strip (u ''p'') = u ''p''"
  by (simp add: strip_def isspace_def u_def)

lemma strip_blank: "strip (u ''  '') = []"
  by (simp add: strip_def isspace_def u_def)

lemma strip_wide_blank: "strip [12288, 9] = []"
  by (simp add: strip_def isspace_def)

section \<open>The dispatcher: which request is sent\<close>

lemma call_ollama_api_unfold:
  "call_ollama_api rich http url endpoint method json_data =
     answered rich (issued url endpoint method json_data)
       (http (issued url endpoint method json_data))"
  unfolding call_ollama_api_def Let_def answered_def issued_def ..

lemma request_failed_cases:
  "request_failed rich req x = \<lparr>sent = [req], printed = [], ret = Inl x\<rparr> \<or>
   (\<exists>y. request_failed rich req x = \<lparr>sent = [req], printed = [], ret = Inl y\<rparr>) \<or>
   (\<exists>e. x = RequestException e \<and> rich (print_error (Network_request_failed e)) = None \<and>
        request_failed rich req x =
          \<lparr>sent = [req], printed = [print_error (Network_request_failed e)], ret = Inr JNull\<rparr>)"
proof (cases x)
  case (RequestException e)
  then show ?thesis
    by (cases "rich (print_error (Network_request_failed e))") (simp_all add: request_failed_def)
qed (simp_all add: request_failed_def)

lemma sent_request_failed: "sent (request_failed rich req x) = [req]"
  using request_failed_cases [of rich req x] by auto

lemma sent_answered: "sent (answered rich req answer) = [req]"
proof (cases answer)
  case (Inl x)
  then show ?thesis by (simp add: answered_def sent_request_failed)
next
  case (Inr response)
  show ?thesis
  proof (cases "resp_json response")
    case (Inl x)
    with Inr show ?thesis by (simp add: answered_def sent_request_failed)
  next
    case (Inr v)
    with \<open>answer = Inr response\<close> show ?thesis by (simp add: answered_def)
  qed
qed

lemma sent_call:
  "sent (call_ollama_api rich http url endpoint method json_data) =
     [issued url endpoint method json_data]"
  by (simp add: call_ollama_api_unfold sent_answered)

text \<open>
  Claim C10.  For every method string other than exactly \<open>"POST"\<close> or \<open>"DELETE"\<close>
  (\<open>"HEAD"\<close> and any unrecognised value included), \<open>call_ollama_api\<close> sends one
  request, a GET to \<open>{url}/api/{endpoint}\<close>, and the request carries no body whatever
  \<open>json_data\<close> was given.
\<close>

theorem other_methods_issue_get:
  assumes "method \<noteq> u ''POST''" and "method \<noteq> u ''DELETE''"
  shows "sent (call_ollama_api rich http url endpoint method json_data) =
           [\<lparr>req_method = GET, req_url = url @ u ''/api/'' @ endpoint, req_headers = [],
             req_json = None, req_verify = False, req_stream = False\<rparr>]"
  using assms by (simp add: sent_call issued_def)

theorem other_methods_issue_get_witness:
  "u ''HEAD'' \<noteq> u ''POST'' \<and> u ''HEAD'' \<noteq> u ''DELETE'' \<and>
   sent (call_ollama_api prints_all refuse
           (u ''http://h'') (u ''tags'') (u ''HEAD'') (Some (JDict [(u ''model'', JStr (u ''m''))]))) =
     [\<lparr>req_method = GET, req_url = u ''http://h/api/tags'', req_headers = [],
       req_json = None, req_verify = False, req_stream = False\<rparr>]"
proof -
  have a: "u ''HEAD'' \<noteq> u ''POST''" and b: "u ''HEAD'' \<noteq> u ''DELETE''"
    by (simp_all add: u_eq_iff)
  have c: "u ''http://h'' @ u ''/api/'' @ u ''tags'' = u ''http://h/api/tags''"
    by (simp add: u_def)
  show ?thesis
    using other_methods_issue_get [OF a b, of prints_all refuse
        "u ''http://h''" "u ''tags''" "Some (JDict [(u ''model'', JStr (u ''m''))])"] a b c
    by simp
qed

section \<open>The dispatcher: what it returns and prints\<close>

lemma answered_cases:
  "(\<exists>v. answered rich req answer = \<lparr>sent = [req], printed = [], ret = Inr v\<rparr>) \<or>
   (\<exists>y. answered rich req answer = \<lparr>sent = [req], printed = [], ret = Inl y\<rparr>) \<or>
   (\<exists>c. answered rich req answer =
          \<lparr>sent = [req], printed = [print_error (Request_failed_status c)], ret = Inr JNull\<rparr>) \<or>
   (\<exists>e. answered rich req answer =
          \<lparr>sent = [req], printed = [print_error (Network_request_failed e)], ret = Inr JNull\<rparr>)"
proof (cases answer)
  case (Inl x)
  with request_failed_cases [of rich req x] show ?thesis
    by (auto simp: answered_def)
next
  case (Inr response)
  show ?thesis
  proof (cases "resp_json response")
    case (Inl x)
    with Inr request_failed_cases [of rich req x] show ?thesis
      by (auto simp: answered_def)
  next
    case (Inr v)
    with \<open>answer = Inr response\<close> show ?thesis by (simp add: answered_def)
  qed
qed

section \<open>Pulling and pushing a model\<close>

lemma issued_pull:
  "issued url (u ''pull'') (u ''POST'') (Some (JDict [(u ''model'', JStr n), (u ''stream'', JBool b)])) =
     pull_request url n b"
  by (simp add: issued_def pull_request_def) (simp add: u_def)

lemma issued_push:
  "issued url (u ''push'') (u ''POST'') (Some (JDict [(u ''model'', JStr n), (u ''stream'', JBool b)])) =
     push_request url n b"
  by (simp add: issued_def push_request_def) (simp add: u_def)

lemma verdict_after_call:
  assumes "ok \<noteq> bad"
    and "\<And>c. ok \<noteq> print_error (Request_failed_status c)"
    and "\<And>e. ok \<noteq> print_error (Network_request_failed e)"
    and "\<And>c. bad \<noteq> print_error (Request_failed_status c)"
    and "\<And>e. bad \<noteq> print_error (Network_request_failed e)"
    and "a = (case ret r of
                Inl x \<Rightarrow> \<lparr>sent = sent r, printed = printed r, raised = Some x\<rparr>
              | Inr result \<Rightarrow>
                  \<lparr>sent = sent r,
                   printed = printed r @ [if result = JBool True then ok else bad],
                   raised = None\<rparr>)"
    and "r = answered rich req answer"
  shows "(ok \<in> set (printed a) \<longleftrightarrow> ret r = Inr (JBool True)) \<and>
         (bad \<in> set (printed a) \<longleftrightarrow> (\<exists>v. ret r = Inr v \<and> v \<noteq> JBool True)) \<and>
         raised a = (case ret r of Inl x \<Rightarrow> Some x | Inr v \<Rightarrow> None)"
  using answered_cases [of rich req answer] assms by (auto split: sum.splits)

text \<open>
  Claim C8.  With a non-empty model name, \<open>pull_model\<close> and \<open>push_model\<close> report
  success exactly when the value the dispatcher returns is the boolean \<open>True\<close>, and
  report the failure exactly when it returns anything else (\<open>None\<close>, a text, a dict,
  a number); the \<open>stream\<close> flag goes into the request body and plays no part in the
  test.
\<close>

theorem pull_push_success_iff_true:
  assumes "strip ask \<noteq> []"
  shows "(print_info Pull_ok \<in> set (printed (pull_model rich http url ask stream)) \<longleftrightarrow>
            ret (call_ollama_api rich http url (u ''pull'') (u ''POST'')
                  (Some (JDict [(u ''model'', JStr (strip ask)), (u ''stream'', JBool stream)]))) =
              Inr (JBool True)) \<and>
         (print_error Pull_failed \<in> set (printed (pull_model rich http url ask stream)) \<longleftrightarrow>
            (\<exists>v. ret (call_ollama_api rich http url (u ''pull'') (u ''POST'')
                  (Some (JDict [(u ''model'', JStr (strip ask)), (u ''stream'', JBool stream)]))) =
                Inr v \<and> v \<noteq> JBool True)) \<and>
         (print_info Push_ok \<in> set (printed (push_model rich http url ask stream)) \<longleftrightarrow>
            ret (call_ollama_api rich http url (u ''push'') (u ''POST'')
                  (Some (JDict [(u ''model'', JStr (strip ask)), (u ''stream'', JBool stream)]))) =
              Inr (JBool True)) \<and>
         (print_error Push_failed \<in> set (printed (push_model rich http url ask stream)) \<longleftrightarrow>
            (\<exists>v. ret (call_ollama_api rich http url (u ''push'') (u ''POST'')
                  (Some (JDict [(u ''model'', JStr (strip ask)), (u ''stream'', JBool stream)]))) =
                Inr v \<and> v \<noteq> JBool True))"
proof -
  let ?body = "Some (JDict [(u ''model'', JStr (strip ask)), (u ''stream'', JBool stream)])"
  let ?pull = "call_ollama_api rich http url (u ''pull'') (u ''POST'') ?body"
  let ?push = "call_ollama_api rich http url (u ''push'') (u ''POST'') ?body"
  have a: "pull_model rich http url ask stream =
      (case ret ?pull of
         Inl x \<Rightarrow> \<lparr>sent = sent ?pull, printed = printed ?pull, raised = Some x\<rparr>
       | Inr result \<Rightarrow>
           \<lparr>sent = sent ?pull,
            printed = printed ?pull @
              [if result = JBool True then print_info Pull_ok else print_error Pull_failed],
            raised = None\<rparr>)"
    using assms unfolding pull_model_def Let_def by simp
  have b: "push_model rich http url ask stream =
      (case ret ?push of
         Inl x \<Rightarrow> \<lparr>sent = sent ?push, printed = printed ?push, raised = Some x\<rparr>
       | Inr result \<Rightarrow>
           \<lparr>sent = sent ?push,
            printed = printed ?push @
              [if result = JBool True then print_info Push_ok else print_error Push_failed],
            raised = None\<rparr>)"
    using assms unfolding push_model_def Let_def by simp
  from verdict_after_call [where ok = "print_info Pull_ok" and bad = "print_error Pull_failed",
      OF _ _ _ _ _ a call_ollama_api_unfold]
    verdict_after_call [where ok = "print_info Push_ok" and bad = "print_error Push_failed",
      OF _ _ _ _ _ b call_ollama_api_unfold]
  show ?thesis by simp
qed

theorem pull_push_success_iff_true_witness:
  "strip (u ''m'') \<noteq> [] \<and>
   print_info Pull_ok \<in> set (printed (pull_model prints_all (answer_json (u ''true'') (JBool True)) (u ''http://h'') (u ''m'') True)) \<and>
   print_error Pull_failed \<notin> set (printed (pull_model prints_all (answer_json (u ''true'') (JBool True)) (u ''http://h'') (u ''m'') True)) \<and>
   print_info Push_ok \<notin> set (printed (push_model prints_all (answer_json (u ''{}'') (JDict [])) (u ''http://h'') (u ''m'') False)) \<and>
   print_error Push_failed \<in> set (printed (push_model prints_all (answer_json (u ''{}'') (JDict [])) (u ''http://h'') (u ''m'') False))"
proof -
  have a: "strip (u ''m'') \<noteq> []" by (simp add: strip_m u_eq_Nil_iff)
  have t: "ret (call_ollama_api prints_all (answer_json (u ''true'') (JBool True)) (u ''http://h'') (u ''pull'') (u ''POST'')
                  (Some (JDict [(u ''model'', JStr (u ''m'')), (u ''stream'', JBool True)]))) = Inr (JBool True)"
    by (simp add: call_ollama_api_unfold answered_def answer_json_def json_response_def)
  have f: "ret (call_ollama_api prints_all (answer_json (u ''{}'') (JDict [])) (u ''http://h'') (u ''push'') (u ''POST'')
                  (Some (JDict [(u ''model'', JStr (u ''m'')), (u ''stream'', JBool False)]))) = Inr (JDict [])"
    by (simp add: call_ollama_api_unfold answered_def answer_json_def json_response_def)
  from pull_push_success_iff_true [OF a, of prints_all "answer_json (u ''true'') (JBool True)" "u ''http://h''" True]
       pull_push_success_iff_true [OF a, of prints_all "answer_json (u ''{}'') (JDict [])" "u ''http://h''" False]
       a t f
  show ?thesis by (simp add: strip_m)
qed

section \<open>Validation of the inputs\<close>

text \<open>
  Claim C6.  When the model name or the prompt is empty after \<open>strip\<close>,
  \<open>generate_text\<close> prints the validation error and sends no request; so do
  \<open>copy_model\<close> when the source or the target name is empty, and \<open>pull_model\<close> and
  \<open>push_model\<close> when the model name is empty.
\<close>

theorem empty_input_sends_nothing:
  "(strip ask_model = [] \<or> strip ask_prompt = [] \<longrightarrow>
      generate_text rich http json_loads url ask_model ask_prompt =
        \<lparr>sent = [], printed = [print_error Model_and_prompt_empty], raised = None\<rparr>) \<and>
   (strip ask_source = [] \<or> strip ask_target = [] \<longrightarrow>
      copy_model rich http url ask_source ask_target =
        \<lparr>sent = [], printed = [print_error Source_and_target_empty], raised = None\<rparr>) \<and>
   (strip ask = [] \<longrightarrow>
      pull_model rich http url ask stream =
        \<lparr>sent = [], printed = [print_error Model_name_empty], raised = None\<rparr>) \<and>
   (strip ask = [] \<longrightarrow>
      push_model rich http url ask stream =
        \<lparr>sent = [], printed = [print_error Model_name_empty], raised = None\<rparr>)"
proof -
  have "strip ask_model = [] \<or> strip ask_prompt = [] \<Longrightarrow>
      generate_text rich http json_loads url ask_model ask_prompt =
        \<lparr>sent = [], printed = [print_error Model_and_prompt_empty], raised = None\<rparr>"
    unfolding generate_text_def Let_def by (rule if_P)
  moreover have "strip ask_source = [] \<or> strip ask_target = [] \<Longrightarrow>
      copy_model rich http url ask_source ask_target =
        \<lparr>sent = [], printed = [print_error Source_and_target_empty], raised = None\<rparr>"
    unfolding copy_model_def Let_def by (rule if_P)
  moreover have "strip ask = [] \<Longrightarrow>
      pull_model rich http url ask stream =
        \<lparr>sent = [], printed = [print_error Model_name_empty], raised = None\<rparr>"
    unfolding pull_model_def Let_def by (rule if_P)
  moreover have "strip ask = [] \<Longrightarrow>
      push_model rich http url ask stream =
        \<lparr>sent = [], printed = [print_error Model_name_empty], raised = None\<rparr>"
    unfolding push_model_def Let_def by (rule if_P)
  ultimately show ?thesis by blast
qed

theorem empty_input_sends_nothing_witness:
  "strip (u ''  '') = [] \<and> strip [12288, 9] = [] \<and>
   generate_text prints_all (answer_status 204) (\<lambda>s. Inl JSONDecodeError) (u ''http://h'') (u ''m'') (u ''  '') =
     \<lparr>sent = [], printed = [print_error Model_and_prompt_empty], raised = None\<rparr> \<and>
   copy_model prints_all (answer_status 204) (u ''http://h'') [12288, 9] (u ''m'') =
     \<lparr>sent = [], printed = [print_error Source_and_target_empty], raised = None\<rparr> \<and>
   pull_model prints_all (answer_status 204) (u ''http://h'') (u ''  '') True =
     \<lparr>sent = [], printed = [print_error Model_name_empty], raised = None\<rparr> \<and>
   push_model prints_all (answer_status 204) (u ''http://h'') (u ''  '') False =
     \<lparr>sent = [], printed = [print_error Model_name_empty], raised = None\<rparr>"
  using empty_input_sends_nothing [of "u ''m''" "u ''  ''" prints_all "answer_status 204"
      "\<lambda>s. Inl JSONDecodeError" "u ''http://h''" "[12288, 9]" "u ''m''" "u ''  ''" True]
    empty_input_sends_nothing [of "u ''m''" "u ''  ''" prints_all "answer_status 204"
      "\<lambda>s. Inl JSONDecodeError" "u ''http://h''" "[12288, 9]" "u ''m''" "u ''  ''" False]
    strip_blank strip_wide_blank
  by simp

section \<open>Certificate verification\<close>

lemma sent_request_error: "sent (request_error rich req out x) = [req]"
proof (cases x)
  case (RequestException e)
  then show ?thesis
    by (cases "rich (print_error (Request_error e))") (simp_all add: request_error_def)
qed (simp_all add: request_error_def)

lemma sent_after_loop: "sent (after_loop rich req st) = [req]"
  by (simp add: after_loop_def Let_def sent_request_error split: option.split)

lemma generate_text_sent:
  assumes "strip ask_model \<noteq> []" and "strip ask_prompt \<noteq> []"
  shows "sent (generate_text rich http json_loads url ask_model ask_prompt) =
     [\<lparr>req_method = POST, req_url = url @ u ''/api/generate'',
       req_headers = [(u ''Content-Type'', u ''application/json'')],
       req_json = Some (JDict [(u ''model'', JStr (strip ask_model)), (u ''prompt'', JStr (strip ask_prompt))]),
       req_verify = True, req_stream = True\<rparr>]"
  using assms
  by (simp add: generate_text_def Let_def sent_request_error sent_after_loop
      split: sum.split loop_result.split option.split)

lemma check_blob_sent:
  assumes "strip ask \<noteq> []"
  shows "sent (check_blob http url ask) =
     [\<lparr>req_method = HEAD, req_url = url @ u ''/api/blobs/'' @ strip ask, req_headers = [],
       req_json = None, req_verify = False, req_stream = False\<rparr>]"
  using assms by (simp add: check_blob_def Let_def split: sum.split)

text \<open>
  Claim C9.  The dispatcher and \<open>check_blob\<close> pass \<open>verify=False\<close>;
  \<open>generate_text\<close> calls \<open>requests.post\<close> without it, so its request is sent with
  the library's default, certificate verification enabled.  Evaluated for the model name
  \<open>m\<close> and the prompt \<open>p\<close>.
\<close>

theorem generate_text_verifies_certificate:
  "map req_verify (sent (generate_text prints_all refuse (\<lambda>s. Inl JSONDecodeError)
                           (u ''https://h'') (u ''m'') (u ''p''))) = [True] \<and>
   map req_verify (sent (call_ollama_api prints_all refuse (u ''https://h'') (u ''show'') (u ''POST'')
                           (Some (JDict [(u ''model'', JStr (u ''m''))])))) = [False] \<and>
   map req_verify (sent (check_blob refuse (u ''https://h'') (u ''m''))) = [False]"
proof -
  have m: "strip (u ''m'') \<noteq> []" and p: "strip (u ''p'') \<noteq> []"
    by (simp_all add: strip_m strip_p u_eq_Nil_iff)
  show ?thesis
    by (simp add: generate_text_sent [OF m p] check_blob_sent [OF m] sent_call issued_def)
qed

section \<open>Deleting a model\<close>

lemma issued_delete:
  "issued url (u ''delete'') (u ''DELETE'') (Some (JDict [(u ''model'', JStr n)])) = delete_request url n"
  by (simp add: issued_def delete_request_def u_eq_iff) (simp add: u_def)

lemma issued_copy:
  "issued url (u ''copy'') (u ''POST'') (Some (JDict [(u ''from'', JStr a), (u ''to'', JStr b)])) =
     copy_request url a b"
  by (simp add: issued_def copy_request_def) (simp add: u_def)

lemma call_204:
  "call_ollama_api rich (answer_status 204) url endpoint method json_data =
     \<lparr>sent = [issued url endpoint method json_data], printed = [], ret = Inr (JBool True)\<rparr>"
  by (simp add: call_ollama_api_unfold answered_def answer_status_def status_response_def)

text \<open>
  Claim C4.  Answered with status 204 the dispatcher returns \<open>True\<close>, its value for
  a success without a body, and \<open>pull_model\<close>, \<open>push_model\<close> and \<open>copy_model\<close>
  report success on it.  \<open>delete_model\<close> compares the result with \<open>""\<close>, and
  \<open>True == ""\<close> is false: it reports that the deletion failed.
\<close>

theorem delete_204_reported_as_failure:
  "ret (call_ollama_api prints_all (answer_status 204) (u ''http://h'') (u ''delete'') (u ''DELETE'')
          (Some (JDict [(u ''model'', JStr (u ''m''))]))) = Inr (JBool True) \<and>
   delete_model prints_all (answer_status 204) (u ''http://h'') (u ''m'') True =
     \<lparr>sent = [delete_request (u ''http://h'') (u ''m'')], printed = [print_error Delete_failed],
      raised = None\<rparr> \<and>
   pull_model prints_all (answer_status 204) (u ''http://h'') (u ''m'') False =
     \<lparr>sent = [pull_request (u ''http://h'') (u ''m'') False], printed = [print_info Pull_ok],
      raised = None\<rparr> \<and>
   push_model prints_all (answer_status 204) (u ''http://h'') (u ''m'') False =
     \<lparr>sent = [push_request (u ''http://h'') (u ''m'') False], printed = [print_info Push_ok],
      raised = None\<rparr> \<and>
   copy_model prints_all (answer_status 204) (u ''http://h'') (u ''m'') (u ''p'') =
     \<lparr>sent = [copy_request (u ''http://h'') (u ''m'') (u ''p'')], printed = [print_info Copy_ok],
      raised = None\<rparr>"
  by (simp add: delete_model_def pull_model_def push_model_def copy_model_def Let_def call_204
      strip_m strip_p u_eq_Nil_iff issued_delete issued_pull issued_push issued_copy)

section \<open>The dispatcher: how the answer is classified\<close>

text \<open>
  Claim C3, as the code has it.  Status 204 gives \<open>True\<close> whatever the body;
  status 200 gives the value \<open>response.json()\<close> returns, and the raw text when it
  raises a \<open>ValueError\<close>; any other status prints the status and gives \<open>None\<close>,
  and raises nothing; a \<open>RequestException\<close> whose text the console prints gives
  \<open>None\<close> too.  In each case one request is sent.
\<close>

theorem dispatcher_results:
  "(http (issued url endpoint method json_data) = Inr response \<and> status_code response = 204 \<longrightarrow>
      call_ollama_api rich http url endpoint method json_data =
        \<lparr>sent = [issued url endpoint method json_data], printed = [], ret = Inr (JBool True)\<rparr>) \<and>
   (http (issued url endpoint method json_data) = Inr response \<and> status_code response = 200 \<and>
    resp_json response = Inr v \<longrightarrow>
      call_ollama_api rich http url endpoint method json_data =
        \<lparr>sent = [issued url endpoint method json_data], printed = [], ret = Inr v\<rparr>) \<and>
   (http (issued url endpoint method json_data) = Inr response \<and> status_code response = 200 \<and>
    resp_json response = Inl x \<and> is_ValueError x \<longrightarrow>
      call_ollama_api rich http url endpoint method json_data =
        \<lparr>sent = [issued url endpoint method json_data], printed = [],
         ret = Inr (JStr (resp_text response))\<rparr>) \<and>
   (http (issued url endpoint method json_data) = Inr response \<and> status_code response \<noteq> 200 \<and>
    status_code response \<noteq> 204 \<longrightarrow>
      call_ollama_api rich http url endpoint method json_data =
        \<lparr>sent = [issued url endpoint method json_data],
         printed = [print_error (Request_failed_status (status_code response))],
         ret = Inr JNull\<rparr>) \<and>
   (http (issued url endpoint method json_data) = Inl (RequestException e) \<and>
    rich (print_error (Network_request_failed e)) = None \<longrightarrow>
      call_ollama_api rich http url endpoint method json_data =
        \<lparr>sent = [issued url endpoint method json_data],
         printed = [print_error (Network_request_failed e)], ret = Inr JNull\<rparr>)"
  by (simp add: call_ollama_api_unfold answered_def request_failed_def)

theorem dispatcher_results_witness:
  "answer_status 204 (issued (u ''http://h'') (u ''tags'') (u ''GET'') None) = Inr (status_response 204) \<and>
   status_code (status_response 204) = 204 \<and>
   call_ollama_api prints_all (answer_status 204) (u ''http://h'') (u ''tags'') (u ''GET'') None =
     \<lparr>sent = [issued (u ''http://h'') (u ''tags'') (u ''GET'') None], printed = [],
      ret = Inr (JBool True)\<rparr> \<and>
   answer_json (u ''{}'') (JDict []) (issued (u ''http://h'') (u ''tags'') (u ''GET'') None) =
     Inr (json_response (u ''{}'') (JDict [])) \<and>
   status_code (json_response (u ''{}'') (JDict [])) = 200 \<and>
   resp_json (json_response (u ''{}'') (JDict [])) = Inr (JDict []) \<and>
   call_ollama_api prints_all (answer_json (u ''{}'') (JDict [])) (u ''http://h'') (u ''tags'') (u ''GET'') None =
     \<lparr>sent = [issued (u ''http://h'') (u ''tags'') (u ''GET'') None], printed = [],
      ret = Inr (JDict [])\<rparr> \<and>
   answer_status 200 (issued (u ''http://h'') (u ''tags'') (u ''GET'') None) = Inr (status_response 200) \<and>
   status_code (status_response 200) = 200 \<and>
   resp_json (status_response 200) = Inl JSONDecodeError \<and> is_ValueError JSONDecodeError \<and>
   call_ollama_api prints_all (answer_status 200) (u ''http://h'') (u ''tags'') (u ''GET'') None =
     \<lparr>sent = [issued (u ''http://h'') (u ''tags'') (u ''GET'') None], printed = [],
      ret = Inr (JStr (resp_text (status_response 200)))\<rparr> \<and>
   answer_status 500 (issued (u ''http://h'') (u ''tags'') (u ''GET'') None) = Inr (status_response 500) \<and>
   status_code (status_response 500) \<noteq> 200 \<and> status_code (status_response 500) \<noteq> 204 \<and>
   call_ollama_api prints_all (answer_status 500) (u ''http://h'') (u ''tags'') (u ''GET'') None =
     \<lparr>sent = [issued (u ''http://h'') (u ''tags'') (u ''GET'') None],
      printed = [print_error (Request_failed_status (status_code (status_response 500)))],
      ret = Inr JNull\<rparr> \<and>
   refuse (issued (u ''http://h'') (u ''tags'') (u ''GET'') None) =
     Inl (RequestException (u ''connection refused'')) \<and>
   prints_all (print_error (Network_request_failed (u ''connection refused''))) = None \<and>
   call_ollama_api prints_all refuse (u ''http://h'') (u ''tags'') (u ''GET'') None =
     \<lparr>sent = [issued (u ''http://h'') (u ''tags'') (u ''GET'') None],
      printed = [print_error (Network_request_failed (u ''connection refused''))],
      ret = Inr JNull\<rparr>"
proof -
  let ?req = "issued (u ''http://h'') (u ''tags'') (u ''GET'') None"
  have a: "answer_status 204 ?req = Inr (status_response 204)"
    "status_code (status_response 204) = 204"
    by (simp_all add: answer_status_def status_response_def)
  have b: "answer_json (u ''{}'') (JDict []) ?req = Inr (json_response (u ''{}'') (JDict []))"
    "status_code (json_response (u ''{}'') (JDict [])) = 200"
    "resp_json (json_response (u ''{}'') (JDict [])) = Inr (JDict [])"
    by (simp_all add: answer_json_def json_response_def)
  have c: "answer_status 200 ?req = Inr (status_response 200)"
    "status_code (status_response 200) = 200"
    "resp_json (status_response 200) = Inl JSONDecodeError" "is_ValueError JSONDecodeError"
    by (simp_all add: answer_status_def status_response_def)
  have d: "answer_status 500 ?req = Inr (status_response 500)"
    "status_code (status_response 500) \<noteq> 200" "status_code (status_response 500) \<noteq> 204"
    by (simp_all add: answer_status_def status_response_def)
  have e: "refuse ?req = Inl (RequestException (u ''connection refused''))"
    "prints_all (print_error (Network_request_failed (u ''connection refused''))) = None"
    by (simp_all add: refuse_def prints_all_def)
  note T = dispatcher_results [where rich = prints_all and url = "u ''http://h''"
      and endpoint = "u ''tags''" and json_data = None]
  from T [where http = "answer_status 204" and response = "status_response 204"] a
  have 1: "call_ollama_api prints_all (answer_status 204) (u ''http://h'') (u ''tags'') (u ''GET'') None =
     \<lparr>sent = [?req], printed = [], ret = Inr (JBool True)\<rparr>"
    by blast
  from T [where http = "answer_json (u ''{}'') (JDict [])"
      and response = "json_response (u ''{}'') (JDict [])" and v = "JDict []"] b
  have 2: "call_ollama_api prints_all (answer_json (u ''{}'') (JDict [])) (u ''http://h'') (u ''tags'') (u ''GET'') None =
     \<lparr>sent = [?req], printed = [], ret = Inr (JDict [])\<rparr>"
    by blast
  from T [where http = "answer_status 200" and response = "status_response 200"
      and x = JSONDecodeError] c
  have 3: "call_ollama_api prints_all (answer_status 200) (u ''http://h'') (u ''tags'') (u ''GET'') None =
     \<lparr>sent = [?req], printed = [], ret = Inr (JStr (resp_text (status_response 200)))\<rparr>"
    by blast
  from T [where http = "answer_status 500" and response = "status_response 500"] d
  have 4: "call_ollama_api prints_all (answer_status 500) (u ''http://h'') (u ''tags'') (u ''GET'') None =
     \<lparr>sent = [?req],
      printed = [print_error (Request_failed_status (status_code (status_response 500)))],
      ret = Inr JNull\<rparr>"
    by blast
  from T [where http = refuse and e = "u ''connection refused''"] e
  have 5: "call_ollama_api prints_all refuse (u ''http://h'') (u ''tags'') (u ''GET'') None =
     \<lparr>sent = [?req],
      printed = [print_error (Network_request_failed (u ''connection refused''))],
      ret = Inr JNull\<rparr>"
    by blast
  from a b c d e 1 2 3 4 5 show ?thesis by blast
qed


text \<open>
  Claim C3 as stated fails: what the dispatcher returns after a transport failure is
  what it returns after status 500, the value \<open>None\<close>.  The status and the kind of
  the failure are in the text it prints, not in its result.
\<close>

theorem dispatcher_failures_return_same_value:
  "call_ollama_api prints_all (answer_status 500) (u ''http://h'') (u ''tags'') (u ''GET'') None =
     \<lparr>sent = [issued (u ''http://h'') (u ''tags'') (u ''GET'') None],
      printed = [print_error (Request_failed_status 500)], ret = Inr JNull\<rparr> \<and>
   call_ollama_api prints_all refuse (u ''http://h'') (u ''tags'') (u ''GET'') None =
     \<lparr>sent = [issued (u ''http://h'') (u ''tags'') (u ''GET'') None],
      printed = [print_error (Network_request_failed (u ''connection refused''))],
      ret = Inr JNull\<rparr> \<and>
   ret (call_ollama_api prints_all (answer_status 500) (u ''http://h'') (u ''tags'') (u ''GET'') None) =
   ret (call_ollama_api prints_all refuse (u ''http://h'') (u ''tags'') (u ''GET'') None)"
  by (simp add: call_ollama_api_unfold answered_def request_failed_def answer_status_def
      status_response_def refuse_def prints_all_def)

section \<open>The generation loop\<close>

text \<open>The loop body on an event, by the shape of the event.\<close>

lemma handle_event_well_shaped:
  assumes "well_shaped e"
  shows "handle_event e st =
    Inr (st\<lparr>complete_data := complete_data st @ [e],
            generated_text := generated_text st @ fragment e\<rparr>, truthy (done_value e))"
proof -
  from assms obtain kvs where e: "e = JDict kvs"
    by (cases e) (simp_all add: well_shaped_def)
  show ?thesis
  proof (cases "map_of kvs (u ''response'')")
    case None
    then show ?thesis
      by (simp add: e handle_event_def fragment_def done_value_def split: option.split)
  next
    case (Some v)
    with assms e obtain s where "v = JStr s"
      by (cases v) (simp_all add: well_shaped_def)
    with Some show ?thesis
      by (simp add: e handle_event_def fragment_def done_value_def split: option.split)
  qed
qed


text \<open>The six things a line can do to the loop.\<close>

lemma line_cases:
  fixes l :: pystr and L :: decoder
  obtains (empty) "l = []"
  | (bad) "l \<noteq> []" "L l = Inl JSONDecodeError"
  | (raise) x where "l \<noteq> []" "L l = Inl x" "x \<noteq> JSONDecodeError"
  | (crash) e where "l \<noteq> []" "L l = Inr e" "\<not> well_shaped e"
  | (break) e where "l \<noteq> []" "L l = Inr e" "well_shaped e" "truthy (done_value e)"
  | (continue) e where "l \<noteq> []" "L l = Inr e" "well_shaped e" "\<not> truthy (done_value e)"
  by (cases "L l") auto

lemma loop_bad_line:
  "l \<noteq> [] \<Longrightarrow> L l = Inl JSONDecodeError \<Longrightarrow>
   stream_loop L (l # ls) st =
     stream_loop L ls (st\<lparr>console := console st @ [print (Unparseable_event l)]\<rparr>)"
  by simp

lemma loop_raise:
  "l \<noteq> [] \<Longrightarrow> L l = Inl x \<Longrightarrow> x \<noteq> JSONDecodeError \<Longrightarrow>
   stream_loop L (l # ls) st = Uncaught x st"
  by simp

lemma loop_break:
  "l \<noteq> [] \<Longrightarrow> L l = Inr e \<Longrightarrow> well_shaped e \<Longrightarrow> truthy (done_value e) \<Longrightarrow>
   stream_loop L (l # ls) st =
     Broke (st\<lparr>complete_data := complete_data st @ [e],
               generated_text := generated_text st @ fragment e\<rparr>) ls"
  by (simp add: handle_event_well_shaped)

lemma loop_continue:
  "l \<noteq> [] \<Longrightarrow> L l = Inr e \<Longrightarrow> well_shaped e \<Longrightarrow> \<not> truthy (done_value e) \<Longrightarrow>
   stream_loop L (l # ls) st =
     stream_loop L ls (st\<lparr>complete_data := complete_data st @ [e],
                         generated_text := generated_text st @ fragment e\<rparr>)"
  by (simp add: handle_event_well_shaped)


text \<open>The specification's functions, line by line.\<close>

lemma read_lines_Cons:
  "read_lines L (l # ls) = (if terminal L l then [l] else l # read_lines L ls)"
  by (simp add: read_lines_def)

lemma unread_lines_Cons:
  "unread_lines L (l # ls) = (if terminal L l then ls else unread_lines L ls)"
  by (simp add: unread_lines_def)

lemma decoded_Nil: "decoded L [] = []"
  by (simp add: decoded_def map_filter_simps)

lemma decoded_Cons:
  "decoded L (l # ls) = (case decodes L l of None \<Rightarrow> decoded L ls | Some e \<Rightarrow> e # decoded L ls)"
  by (simp add: decoded_def map_filter_simps split: option.split)

lemma state_after_Nil: "state_after L [] st = st"
  by (simp add: state_after_def decoded_Nil warnings_def)

lemma state_after_empty: "state_after L ([] # ls) st = state_after L ls st"
  by (simp add: state_after_def decoded_Cons decodes_def warnings_def)

lemma state_after_bad:
  "l \<noteq> [] \<Longrightarrow> L l = Inl JSONDecodeError \<Longrightarrow>
   state_after L (l # ls) st =
     state_after L ls (st\<lparr>console := console st @ [print (Unparseable_event l)]\<rparr>)"
  by (simp add: state_after_def decoded_Cons decodes_def warnings_def)

lemma state_after_event:
  "l \<noteq> [] \<Longrightarrow> L l = Inr e \<Longrightarrow>
   state_after L (l # ls) st =
     state_after L ls (st\<lparr>complete_data := complete_data st @ [e],
                          generated_text := generated_text st @ fragment e\<rparr>)"
  by (simp add: state_after_def decoded_Cons decodes_def warnings_def)

text \<open>The loop computes what the specification asks for.\<close>

lemma loop_is_state_after:
  "list_all (readable L) (read_lines L ls) \<Longrightarrow>
   stream_loop L ls st =
     (if list_ex (terminal L) ls
      then Broke (state_after L (read_lines L ls) st) (unread_lines L ls)
      else Exhausted (state_after L (read_lines L ls) st))"
proof (induction ls arbitrary: st)
  case Nil
  show ?case by (simp add: read_lines_def state_after_Nil)
next
  case (Cons l ls)
  show ?case
  proof (cases rule: line_cases [where l = l and L = L])
    case empty
    then have t: "\<not> terminal L l" by (simp add: terminal_def decodes_def)
    with Cons.prems have "list_all (readable L) (read_lines L ls)"
      by (simp add: read_lines_Cons)
    from Cons.IH [OF this, of st] t empty show ?thesis
      by (simp add: read_lines_Cons unread_lines_Cons state_after_empty)
  next
    case bad
    then have t: "\<not> terminal L l" by (simp add: terminal_def decodes_def)
    with Cons.prems have "list_all (readable L) (read_lines L ls)"
      by (simp add: read_lines_Cons)
    from Cons.IH [OF this, of "st\<lparr>console := console st @ [print (Unparseable_event l)]\<rparr>"] t bad
    show ?thesis
      by (simp add: read_lines_Cons unread_lines_Cons state_after_bad)
  next
    case (raise x)
    then have "\<not> terminal L l" "\<not> readable L l"
      by (simp_all add: terminal_def decodes_def readable_def)
    with Cons.prems show ?thesis by (simp add: read_lines_Cons)
  next
    case (crash e)
    then have "\<not> readable L l" by (simp add: readable_def)
    with Cons.prems show ?thesis by (simp add: read_lines_Cons split: if_splits)
  next
    case (break e)
    then have t: "terminal L l" by (simp add: terminal_def decodes_def)
    from break have "state_after L [l] st =
        st\<lparr>complete_data := complete_data st @ [e],
           generated_text := generated_text st @ fragment e\<rparr>"
      by (simp add: state_after_event state_after_Nil)
    with loop_break [where L = L and l = l and e = e and ls = ls and st = st] break t
    show ?thesis
      by (simp add: read_lines_Cons unread_lines_Cons del: stream_loop.simps)
  next
    case (continue e)
    then have t: "\<not> terminal L l" by (simp add: terminal_def decodes_def)
    with Cons.prems have "list_all (readable L) (read_lines L ls)"
      by (simp add: read_lines_Cons)
    from Cons.IH [OF this, of "st\<lparr>complete_data := complete_data st @ [e],
                         generated_text := generated_text st @ fragment e\<rparr>"]
      loop_continue [where L = L and l = l and e = e and ls = ls and st = st] t continue
    show ?thesis
      by (simp add: read_lines_Cons unread_lines_Cons state_after_event del: stream_loop.simps)
  qed
qed

lemma readable_well_shaped:
  "list_all (readable L) ls \<Longrightarrow> list_all well_shaped (decoded L ls)"
  by (induction ls)
    (auto simp: decoded_Nil decoded_Cons decodes_def readable_def split: sum.splits)


text \<open>
  Claim C1.  Take the lines up to and including the first one whose event has a true
  \<open>done\<close> field, and let each of them be empty, not JSON, or an event that is a dict
  whose \<open>response\<close>, if present, is a string.  Then the loop ends normally, by
  \<open>break\<close> with exactly the later lines unread when there is such an event and at
  the end of the lines otherwise, and it leaves the event log followed by the events
  of these lines, in order, and the text followed by the \<open>response\<close> fields of these
  events, in order, each once.  For the three lines of the specification's example the
  text is \<open>Hello\<close> and the log has three events.
\<close>

theorem generated_text_is_concatenation:
  assumes "list_all (readable json_loads) (read_lines json_loads lines)"
  shows "stream_loop json_loads lines st =
           (if list_ex (terminal json_loads) lines
            then Broke (state_after json_loads (read_lines json_loads lines) st)
                   (unread_lines json_loads lines)
            else Exhausted (state_after json_loads (read_lines json_loads lines) st)) \<and>
         list_all well_shaped (decoded json_loads (read_lines json_loads lines))"
  using assms by (simp add: loop_is_state_after readable_well_shaped del: stream_loop.simps)

lemma example_loads_simps:
  "example_loads (u ''{\"response\":\"Hel\"}'') = Inr (JDict [(u ''response'', JStr (u ''Hel''))])"
  "example_loads (u ''{\"response\":\"lo\"}'') = Inr (JDict [(u ''response'', JStr (u ''lo''))])"
  "example_loads (u ''{\"done\":true}'') = Inr (JDict [(u ''done'', JBool True)])"
  "example_loads (u ''{\"note\":\"[/INST]\",\"done\":true}'') = Inr note_event"
  "example_loads [255] = Inl UnicodeDecodeError"
  "example_loads (u ''not json'') = Inl JSONDecodeError"
  by (simp_all add: example_loads_def u_eq_iff) (simp_all add: u_def)

lemma hello_terminal:
  "\<not> terminal example_loads (u ''{\"response\":\"Hel\"}'')"
  "\<not> terminal example_loads (u ''{\"response\":\"lo\"}'')"
  "terminal example_loads (u ''{\"done\":true}'')"
  by (simp_all add: terminal_def decodes_def example_loads_simps done_value_def u_eq_iff u_eq_Nil_iff)

lemma hello_read: "read_lines example_loads hello_stream = hello_stream"
  by (simp add: hello_stream_def read_lines_Cons hello_terminal)

lemma hello_unread: "unread_lines example_loads hello_stream = []"
  by (simp add: hello_stream_def unread_lines_Cons hello_terminal)

lemma hello_readable: "list_all (readable example_loads) hello_stream"
  by (simp add: hello_stream_def readable_def example_loads_simps well_shaped_def u_eq_iff)

lemma hello_decoded: "decoded example_loads hello_stream = hello_events"
  by (simp add: hello_stream_def hello_events_def decoded_Cons decoded_Nil decodes_def
      example_loads_simps u_eq_Nil_iff)

lemma hello_warnings: "warnings example_loads hello_stream = []"
  by (simp add: hello_stream_def warnings_def example_loads_simps)

lemma hello_fragments: "concat (map fragment hello_events) = u ''Hello''"
  by (simp add: hello_events_def fragment_def u_eq_iff) (simp add: u_def)

theorem generated_text_is_concatenation_witness:
  "list_all (readable example_loads) (read_lines example_loads hello_stream) \<and>
   read_lines example_loads hello_stream = hello_stream \<and>
   decoded example_loads hello_stream = hello_events \<and>
   stream_loop example_loads hello_stream init_state =
     Broke \<lparr>generated_text = u ''Hello'', complete_data = hello_events, console = []\<rparr> [] \<and>
   list_all well_shaped hello_events \<and>
   length hello_events = 3"
proof -
  have r: "list_all (readable example_loads) (read_lines example_loads hello_stream)"
    by (simp add: hello_read hello_readable)
  have t: "list_ex (terminal example_loads) hello_stream"
    by (simp add: hello_stream_def hello_terminal)
  have s: "state_after example_loads hello_stream init_state =
      \<lparr>generated_text = u ''Hello'', complete_data = hello_events, console = []\<rparr>"
    by (simp add: state_after_def hello_decoded hello_warnings hello_fragments init_state_def)
  from generated_text_is_concatenation [OF r, of init_state] r t s
  show ?thesis
    by (simp add: hello_read hello_unread hello_decoded del: stream_loop.simps)
      (simp add: hello_events_def)
qed

section \<open>Lines that do not decode\<close>

text \<open>A line on which \<open>json.loads\<close> raises \<open>JSONDecodeError\<close> is printed as
  unparseable and skipped (\<open>loop_bad_line\<close>).  The loop catches nothing else.\<close>

lemma bytes_loop:
  "stream_loop example_loads bytes_stream init_state =
     Uncaught UnicodeDecodeError
       \<lparr>generated_text = u ''Hel'', complete_data = [JDict [(u ''response'', JStr (u ''Hel''))]],
        console = []\<rparr>"
  by (simp add: bytes_stream_def example_loads_simps handle_event_def init_state_def
      u_eq_iff u_eq_Nil_iff)

lemma generate_text_streamed:
  assumes "strip ask_model \<noteq> []" and "strip ask_prompt \<noteq> []"
    and "http (generate_request url (strip ask_model) (strip ask_prompt)) = Inr response"
    and "status_code response = 200"
  shows "generate_text rich http json_loads url ask_model ask_prompt =
     (case stream_loop json_loads (iter_lines response) init_state of
        Uncaught x st \<Rightarrow>
          request_error rich (generate_request url (strip ask_model) (strip ask_prompt))
            (console st) x
      | Broke st unread \<Rightarrow>
          after_loop rich (generate_request url (strip ask_model) (strip ask_prompt)) st
      | Exhausted st \<Rightarrow>
          (case iter_error response of
             Some x \<Rightarrow>
               request_error rich (generate_request url (strip ask_model) (strip ask_prompt))
                 (console st) x
           | None \<Rightarrow>
               after_loop rich (generate_request url (strip ask_model) (strip ask_prompt)) st))"
  using assms unfolding generate_text_def generate_request_def Let_def by simp

lemma generate_example:
  "generate_text rich (answer_lines lines) json_loads (u ''http://h'') (u ''m'') (u ''p'') =
     (case stream_loop json_loads lines init_state of
        Uncaught x st \<Rightarrow>
          request_error rich (generate_request (u ''http://h'') (u ''m'') (u ''p'')) (console st) x
      | Broke st unread \<Rightarrow> after_loop rich (generate_request (u ''http://h'') (u ''m'') (u ''p'')) st
      | Exhausted st \<Rightarrow> after_loop rich (generate_request (u ''http://h'') (u ''m'') (u ''p'')) st)"
proof -
  have m: "strip (u ''m'') \<noteq> []" and p: "strip (u ''p'') \<noteq> []"
    by (simp_all add: strip_m strip_p u_eq_Nil_iff)
  have h: "answer_lines lines (generate_request (u ''http://h'') (strip (u ''m'')) (strip (u ''p''))) =
      Inr (lines_response lines)"
    by (simp add: answer_lines_def)
  have s: "status_code (lines_response lines) = 200" by (simp add: lines_response_def)
  from generate_text_streamed [where http = "answer_lines lines" and rich = rich
      and json_loads = json_loads, OF m p h s]
  show ?thesis
    by (simp add: lines_response_def strip_m strip_p split: loop_result.split
        del: stream_loop.simps)
qed

text \<open>
  Claim C2.  The server declares no character set, so the lines are byte strings, and
  between two events it sends a line that is the byte \<open>255\<close>.  \<open>json.loads\<close>
  fails to decode it with \<open>UnicodeDecodeError\<close>, which is not a
  \<open>JSONDecodeError\<close>: the loop does not skip the line, the exception leaves
  \<open>generate_text\<close>, and neither the event log nor the text is printed.
\<close>

theorem undecodable_bytes_abort_the_stream:
  "example_loads [255] = Inl UnicodeDecodeError \<and>
   stream_loop example_loads bytes_stream init_state =
     Uncaught UnicodeDecodeError
       \<lparr>generated_text = u ''Hel'', complete_data = [JDict [(u ''response'', JStr (u ''Hel''))]],
        console = []\<rparr> \<and>
   generate_text prints_all (answer_lines bytes_stream) example_loads (u ''http://h'') (u ''m'') (u ''p'') =
     \<lparr>sent = [generate_request (u ''http://h'') (u ''m'') (u ''p'')], printed = [],
      raised = Some UnicodeDecodeError\<rparr>"
  by (simp add: generate_example bytes_loop example_loads_simps request_error_def
      del: stream_loop.simps)

section \<open>After the loop\<close>

text \<open>When the console prints the dump of the event log and the text is blank,
  the complaint that it is empty follows.\<close>

lemma empty_text_reported_when_dump_prints:
  assumes "rich (print_info (Event_dump (complete_data st))) = None"
    and "strip (generated_text st) = []"
  shows "after_loop rich req st =
           \<lparr>sent = [req],
            printed = console st @
              [print_info (Event_dump (complete_data st)), print_error Generated_text_empty],
            raised = None\<rparr>"
  using assms by (simp add: after_loop_def)


lemma note_loop:
  "stream_loop example_loads note_stream init_state =
     Broke \<lparr>generated_text = [], complete_data = [note_event], console = []\<rparr> []"
  by (simp add: note_stream_def example_loads_simps handle_event_def init_state_def note_event_def
      u_eq_iff u_eq_Nil_iff)

text \<open>
  Claim C7.  The stream is the one line \<open>{"note":"[/INST]","done":true}\<close>: it ends
  well, by \<open>done\<close>, and the text is empty.  Before it tests the text the source
  prints the dump of the event log as console markup, \<open>rich\<close> raises
  \<open>MarkupError\<close> on \<open>[/INST]\<close>, and the exception leaves \<open>generate_text\<close>:
  the empty text is not reported.
\<close>

theorem markup_in_event_log_crashes_report:
  "stream_loop example_loads note_stream init_state =
     Broke \<lparr>generated_text = [], complete_data = [note_event], console = []\<rparr> [] \<and>
   strip [] = [] \<and>
   generate_text markup_rich (answer_lines note_stream) example_loads (u ''http://h'') (u ''m'') (u ''p'') =
     \<lparr>sent = [generate_request (u ''http://h'') (u ''m'') (u ''p'')], printed = [],
      raised = Some MarkupError\<rparr>"
  by (simp add: generate_example note_loop after_loop_def markup_rich_def request_error_def
      strip_def del: stream_loop.simps)

section \<open>How the loop ends\<close>











end
